theory Spec2Isabelle
  imports Complex_Main "HOL-Library.Multiset" "HOL-Library.Sublist"
begin

section \<open>Data model (types/benchmark.ts)\<close>

text \<open>
  The visualizer is TypeScript; its types are those of types/benchmark.ts (in the sources
  as unnamed/part_004). Strings are modelled as byte strings (\<open>string\<close>); the few
  non-ASCII characters of the source's literals appear as their UTF-8 bytes. A value of
  type \<open>T | null\<close> is a \<open>T option\<close>.
\<close>

subsection \<open>JavaScript numbers\<close>

text \<open>
  A JavaScript number is a finite value, one of the two infinities, NaN or the negative
  zero. \<open>Fin 0\<close> is the positive zero. Finite values are carried as rationals (every
  double is one); no definition below rounds, and the operations whose result depends on
  rounding are taken from a \<open>js_host\<close> record, so that every theorem holds for whatever
  the engine computes there.
\<close>

datatype jsnum = Fin rat | NegZero | PosInf | NegInf | NaN

text \<open>Comparison: anything compared with NaN is false, and both zeros are equal.\<close>

fun rank :: "jsnum \<Rightarrow> (int \<times> rat) option" where
  "rank (Fin q) = Some (0, q)"
| "rank NegZero = Some (0, 0)"
| "rank PosInf = Some (1, 0)"
| "rank NegInf = Some (- 1, 0)"
| "rank NaN = None"

definition js_lt :: "jsnum \<Rightarrow> jsnum \<Rightarrow> bool" where
  "js_lt a b =
     (case (rank a, rank b) of
        (Some (i, x), Some (j, y)) \<Rightarrow> i < j \<or> (i = j \<and> x < y)
      | _ \<Rightarrow> False)"

definition js_gt :: "jsnum \<Rightarrow> jsnum \<Rightarrow> bool" where
  "js_gt a b = js_lt b a"

definition js_ge :: "jsnum \<Rightarrow> jsnum \<Rightarrow> bool" where
  "js_ge a b =
     (case (rank a, rank b) of
        (Some (i, x), Some (j, y)) \<Rightarrow> j < i \<or> (i = j \<and> y \<le> x)
      | _ \<Rightarrow> False)"

text \<open>\<open>a !== 0\<close>: strict inequality with the number zero; NaN differs from everything.\<close>

definition js_is_zero :: "jsnum \<Rightarrow> bool" where
  "js_is_zero a = (a = Fin 0 \<or> a = NegZero)"

subsection \<open>Records of the visualizer\<close>

datatype JmhMode = thrpt | avgt | ss | sample

datatype Provider = BC | Jostle

datatype BenchmarkCategory = PQC | KDF | Symmetric

text \<open>
  \<open>JmhBenchmarkResult\<close>, reduced to the fields the pipeline reads (identifier, mode,
  parameters and the primary metric); the remaining fields describe the JVM run and are
  read by no function modelled here.
\<close>

record JmhPrimaryMetric =
  pm_score :: jsnum
  pm_scoreError :: jsnum
  pm_scoreUnit :: string

record JmhBenchmarkResult =
  benchmark :: string
  raw_mode :: JmhMode
  params :: "(string \<times> string) list"
  primaryMetric :: JmhPrimaryMetric

text \<open>
  \<open>ParsedBenchmark\<close> and \<open>BenchmarkComparison\<close> declare the same classification fields
  and \<open>scoreUnit\<close>; they are the common root of both records here (\<open>idC\<close> is the
  field \<open>id\<close>).
\<close>

record Classified =
  idC :: string
  category :: BenchmarkCategory
  algorithm :: string
  operation :: string
  variant :: string
  mode :: "string option"
  cipherMode :: "string option"
  padding :: "string option"
  hashAlgorithm :: "string option"
  iterations :: "string option"
  jmhMode :: JmhMode
  scoreUnit :: string

record ParsedBenchmark = Classified +
  provider :: Provider
  score :: jsnum
  scoreError :: jsnum
  rawData :: JmhBenchmarkResult

record BenchmarkComparison = Classified +
  bcScore :: "jsnum option"
  bcError :: "jsnum option"
  jostleScore :: "jsnum option"
  jostleError :: "jsnum option"
  bcRaw :: "JmhBenchmarkResult option"
  jostleRaw :: "JmhBenchmarkResult option"

datatype HierarchyNode =
  HierarchyNode (name: string) (path: string) (children: "HierarchyNode list")
    (comparisons: "BenchmarkComparison list")

text \<open>Every node of a tree, the root first (preorder).\<close>

fun allNodes :: "HierarchyNode \<Rightarrow> HierarchyNode list" where
  "allNodes (HierarchyNode nm pa cs comps) =
     HierarchyNode nm pa cs comps # concat (map allNodes cs)"

section \<open>Lookup by path (BenchmarkView.tsx, findNode)\<close>

text \<open>
  BenchmarkView.tsx is in the sources as unnamed/part_002. The loop over \<open>hierarchy.children\<close> is \<open>findNode_children\<close>. \<open>if (found)\<close> tests an
  object or null, so it is the test for \<open>Some\<close>.
\<close>

fun findNode :: "HierarchyNode \<Rightarrow> string \<Rightarrow> HierarchyNode option"
  and findNode_children :: "HierarchyNode list \<Rightarrow> string \<Rightarrow> HierarchyNode option" where
  "findNode (HierarchyNode nm pa cs comps) p =
     (if p = [] \<or> p = pa then Some (HierarchyNode nm pa cs comps)
      else findNode_children cs p)"
| "findNode_children [] p = None"
| "findNode_children (c # cs) p =
     (if path c = p then Some c
      else (case findNode c p of
              Some found \<Rightarrow> Some found
            | None \<Rightarrow> findNode_children cs p))"

section \<open>Formatters (utils/formatters.ts)\<close>

text \<open>utils/formatters.ts is in the sources as unnamed/part_003.\<close>

subsection \<open>String and number primitives of the engine\<close>

text \<open>
  The operations of the engine whose result depends on floating-point rounding or on the
  shortest-digits algorithm: the quotient of two finite numbers with a divisor other than
  zero, \<open>Math.log10\<close>, \<open>Math.pow\<close>, and \<open>Number::toString\<close> of a finite number that
  is not an integer below \<open>10^21\<close>. The functions below take them from this record.
\<close>

record js_host =
  host_div :: "rat \<Rightarrow> rat \<Rightarrow> jsnum"
  host_log10 :: "jsnum \<Rightarrow> jsnum"
  host_pow :: "jsnum \<Rightarrow> jsnum \<Rightarrow> jsnum"
  host_toString :: "rat \<Rightarrow> string"

definition js_negative :: "jsnum \<Rightarrow> bool" where
  "js_negative a = (case a of Fin q \<Rightarrow> q < 0 | NegZero \<Rightarrow> True | NegInf \<Rightarrow> True | _ \<Rightarrow> False)"

definition js_infinite :: "jsnum \<Rightarrow> bool" where
  "js_infinite a = (a = PosInf \<or> a = NegInf)"

definition js_value :: "jsnum \<Rightarrow> rat" where
  "js_value a = (case a of Fin q \<Rightarrow> q | _ \<Rightarrow> 0)"

definition signed_inf :: "bool \<Rightarrow> jsnum" where
  "signed_inf neg = (if neg then NegInf else PosInf)"

definition signed_zero :: "bool \<Rightarrow> jsnum" where
  "signed_zero neg = (if neg then NegZero else Fin 0)"

text \<open>
  \<open>a / b\<close> (IEEE 754): never an exception. A zero divisor gives an infinity, or NaN for
  \<open>0 / 0\<close>.
\<close>

definition js_div :: "js_host \<Rightarrow> jsnum \<Rightarrow> jsnum \<Rightarrow> jsnum" where
  "js_div H a b =
     (let neg = (js_negative a \<noteq> js_negative b) in
      if a = NaN \<or> b = NaN then NaN
      else if js_infinite a then (if js_infinite b then NaN else signed_inf neg)
      else if js_infinite b then signed_zero neg
      else if js_is_zero b then (if js_is_zero a then NaN else signed_inf neg)
      else if js_is_zero a then signed_zero neg
      else host_div H (js_value a) (js_value b))"

definition Math_abs :: "jsnum \<Rightarrow> jsnum" where
  "Math_abs a =
     (case a of Fin q \<Rightarrow> Fin \<bar>q\<bar> | NegZero \<Rightarrow> Fin 0 | NegInf \<Rightarrow> PosInf | _ \<Rightarrow> a)"

definition Math_floor :: "jsnum \<Rightarrow> jsnum" where
  "Math_floor a = (case a of Fin q \<Rightarrow> Fin (of_int \<lfloor>q\<rfloor>) | _ \<Rightarrow> a)"

definition digit_char :: "nat \<Rightarrow> char" where
  "digit_char d = ''0123456789'' ! d"

text \<open>The decimal digits of a non-negative integer.\<close>

function decimal :: "int \<Rightarrow> string" where
  "decimal n =
     (if n < 10 then [digit_char (nat n)]
      else decimal (n div 10) @ [digit_char (nat (n mod 10))])"
  by pat_completeness auto
termination
  by (relation "measure nat") auto

text \<open>\<open>String(num)\<close>.\<close>

definition String_num :: "js_host \<Rightarrow> jsnum \<Rightarrow> string" where
  "String_num H a =
     (case a of
        NaN \<Rightarrow> ''NaN''
      | PosInf \<Rightarrow> ''Infinity''
      | NegInf \<Rightarrow> ''-Infinity''
      | NegZero \<Rightarrow> ''0''
      | Fin q \<Rightarrow>
          if q = of_int \<lfloor>q\<rfloor> \<and> \<bar>q\<bar> < 10 ^ 21
          then (if q < 0 then ''-'' else '''') @ decimal \<bar>\<lfloor>q\<rfloor>\<bar>
          else host_toString H q)"

text \<open>
  \<open>x.toFixed(f)\<close> (ECMAScript, Number.prototype.toFixed) for \<open>0 \<le> f \<le> 100\<close>; every call
  in the sources passes 1, 2, 3 or 4, so its RangeError for other digits cannot arise. A
  value that is not finite is printed by name; a finite one is rounded to the nearest
  multiple of \<open>10^-f\<close>, the larger of two equally near, and printed with exactly \<open>f\<close>
  digits after the point, unless its magnitude reaches \<open>10^21\<close>.
\<close>

definition toFixed_finite :: "js_host \<Rightarrow> nat \<Rightarrow> rat \<Rightarrow> string" where
  "toFixed_finite H f q =
     (let s = (if q < 0 then ''-'' else '''');
          x = \<bar>q\<bar>
      in if x \<ge> 10 ^ 21 then s @ host_toString H x
         else
           (let n = \<lfloor>x * 10 ^ f + 1 / 2\<rfloor>;
                m = decimal n;
                k = length m;
                m' = (if k \<le> f then replicate (f + 1 - k) (CHR ''0'') @ m else m);
                k' = (if k \<le> f then f + 1 else k)
            in s @ (if f \<noteq> 0 then take (k' - f) m' @ ''.'' @ drop (k' - f) m' else m)))"

definition toFixed :: "js_host \<Rightarrow> nat \<Rightarrow> jsnum \<Rightarrow> string" where
  "toFixed H f a =
     (case a of
        NaN \<Rightarrow> ''NaN''
      | PosInf \<Rightarrow> ''Infinity''
      | NegInf \<Rightarrow> ''-Infinity''
      | NegZero \<Rightarrow> toFixed_finite H f 0
      | Fin q \<Rightarrow> toFixed_finite H f q)"

text \<open>\<open>Array.prototype.join\<close>.\<close>

fun join :: "string \<Rightarrow> string list \<Rightarrow> string" where
  "join sep [] = []"
| "join sep [x] = x"
| "join sep (x # y # ys) = x @ sep @ join sep (y # ys)"

text \<open>
  Case mapping and the digit test, on ASCII; the names the formatters receive are ASCII
  identifiers.
\<close>

definition toUpperCase_char :: "char \<Rightarrow> char" where
  "toUpperCase_char c =
     (let n = (of_char c :: nat) in if 97 \<le> n \<and> n \<le> 122 then char_of (n - 32) else c)"


definition is_digit :: "char \<Rightarrow> bool" where
  "is_digit c = (let n = (of_char c :: nat) in 48 \<le> n \<and> n \<le> 57)"

subsection \<open>Names\<close>

definition specialCases :: "(string \<times> string) list" where
  "specialCases =
     [(''MlKem'', ''ML-KEM''), (''MlDsa'', ''ML-DSA''), (''SlhDsa'', ''SLH-DSA''),
      (''Pbkdf2'', ''PBKDF2''), (''Aes'', ''AES''), (''Sm4'', ''SM4''), (''Des'', ''DES''),
      (''TripleDes'', ''3DES''), (''Rsa'', ''RSA''), (''Ecdsa'', ''ECDSA''),
      (''Ecdh'', ''ECDH''), (''Sha256'', ''SHA-256''), (''Sha384'', ''SHA-384''),
      (''Sha512'', ''SHA-512''), (''Sha3'', ''SHA-3''), (''Hmac'', ''HMAC'')]"

text \<open>
  The loop over \<open>Object.entries(specialCases)\<close>, in the order the keys are written.
  \<open>/^\d/.test(suffix)\<close> asks for a first character that is a digit.
\<close>

fun formatAlgorithmName_entries :: "(string \<times> string) list \<Rightarrow> string \<Rightarrow> string" where
  "formatAlgorithmName_entries [] name' = name'"
| "formatAlgorithmName_entries ((key, val) # rest) name' =
     (if prefix key name' then
        (let suffix = drop (length key) name' in
         if prefix ''-'' suffix then val @ suffix
         else if (case suffix of [] \<Rightarrow> False | c # _ \<Rightarrow> is_digit c) then val @ ''-'' @ suffix
         else val @ suffix)
      else formatAlgorithmName_entries rest name')"

text \<open>
  \<open>specialCases[name]\<close> is the lookup among the table's own keys (all its values are
  non-empty, hence truthy).
\<close>

definition formatAlgorithmName :: "string \<Rightarrow> string" where
  "formatAlgorithmName name' =
     (case map_of specialCases name' of
        Some v \<Rightarrow> v
      | None \<Rightarrow> formatAlgorithmName_entries specialCases name')"

definition operationMap :: "(string \<times> string) list" where
  "operationMap =
     [(''keyGen'', ''Key Generation''), (''encrypt'', ''Encrypt''), (''decrypt'', ''Decrypt''),
      (''sign'', ''Sign''), (''verify'', ''Verify''), (''deriveKey'', ''Key Derivation''),
      (''encapsulate'', ''Encapsulate''), (''decapsulate'', ''Decapsulate'')]"

definition formatOperationName :: "string \<Rightarrow> string" where
  "formatOperationName name' =
     (case map_of operationMap name' of
        Some v \<Rightarrow> v
      | None \<Rightarrow> (case name' of [] \<Rightarrow> [] | c # cs \<Rightarrow> toUpperCase_char c # cs))"

definition formatVariantName :: "string \<Rightarrow> string" where
  "formatVariantName name' =
     (if name' = ''default'' then ''Default'' else formatAlgorithmName name')"

subsection \<open>Scores and ratios\<close>

definition superscriptDigits :: "(char \<times> string) list" where
  "superscriptDigits =
     [(CHR ''0'', [CHR 0xE2, CHR 0x81, CHR 0xB0]), (CHR ''1'', [CHR 0xC2, CHR 0xB9]),
      (CHR ''2'', [CHR 0xC2, CHR 0xB2]), (CHR ''3'', [CHR 0xC2, CHR 0xB3]),
      (CHR ''4'', [CHR 0xE2, CHR 0x81, CHR 0xB4]), (CHR ''5'', [CHR 0xE2, CHR 0x81, CHR 0xB5]),
      (CHR ''6'', [CHR 0xE2, CHR 0x81, CHR 0xB6]), (CHR ''7'', [CHR 0xE2, CHR 0x81, CHR 0xB7]),
      (CHR ''8'', [CHR 0xE2, CHR 0x81, CHR 0xB8]), (CHR ''9'', [CHR 0xE2, CHR 0x81, CHR 0xB9]),
      (CHR ''-'', [CHR 0xE2, CHR 0x81, CHR 0xBB]), (CHR ''+'', [CHR 0xE2, CHR 0x81, CHR 0xBA])]"

definition toSuperscript :: "js_host \<Rightarrow> jsnum \<Rightarrow> string" where
  "toSuperscript H num =
     concat (map (\<lambda>c. case map_of superscriptDigits c of Some s \<Rightarrow> s | None \<Rightarrow> [c])
               (String_num H num))"

text \<open>The multiplication sign of the template literal, U+00D7, with the spaces and the 10.\<close>

definition times_ten :: string where
  "times_ten = [CHR '' '', CHR 0xC3, CHR 0x97, CHR '' '', CHR ''1'', CHR ''0'']"

definition formatPowerOfTen :: "js_host \<Rightarrow> jsnum \<Rightarrow> nat \<Rightarrow> string" where
  "formatPowerOfTen H v decimals =
     (let exp' = Math_floor (host_log10 H (Math_abs v));
          mantissa = js_div H v (host_pow H (Fin 10) exp')
      in toFixed H decimals mantissa @ times_ten @ toSuperscript H exp')"

text \<open>
  \<open>formatScoreValue\<close> and \<open>formatRatio\<close> with \<open>decimals\<close> at its default, as every call
  in the repository leaves it. The literal \<open>0.01\<close> is the double nearest to \<open>1/100\<close>; no
  double lies between the two, so a double is below the one exactly when it is below the
  other.
\<close>

definition power_of_ten_range :: "jsnum \<Rightarrow> bool" where
  "power_of_ten_range v = (js_ge v (Fin 1000) \<or> (js_gt v (Fin 0) \<and> js_lt v (Fin (1 / 100))))"

definition formatScoreValue :: "js_host \<Rightarrow> jsnum option \<Rightarrow> string" where
  "formatScoreValue H v' =
     (case v' of
        None \<Rightarrow> ''N/A''
      | Some v \<Rightarrow> if power_of_ten_range v then formatPowerOfTen H v 4 else toFixed H 4 v)"

definition formatErrorMargin :: "js_host \<Rightarrow> jsnum option \<Rightarrow> string" where
  "formatErrorMargin H v' =
     (case v' of None \<Rightarrow> ''N/A'' | Some v \<Rightarrow> ''+/- '' @ formatScoreValue H (Some v))"

definition formatRatio :: "js_host \<Rightarrow> jsnum option \<Rightarrow> string" where
  "formatRatio H v' = (case v' of None \<Rightarrow> ''N/A'' | Some v \<Rightarrow> toFixed H 2 v @ ''x'')"

text \<open>
  A string that ends in a digit, a point and exactly \<open>f\<close> digits: a number printed
  with \<open>f\<close> decimal places.
\<close>

definition has_decimals :: "nat \<Rightarrow> string \<Rightarrow> bool" where
  "has_decimals f s =
     (let b = drop (length s - f) s;
          a = take (length s - f) s
      in length b = f \<and> list_all is_digit b \<and> a \<noteq> [] \<and> last a = CHR ''.''
         \<and> butlast a \<noteq> [] \<and> is_digit (last (butlast a)))"

subsection \<open>A host with exact arithmetic\<close>

text \<open>
  The concrete host of the examples: it divides without rounding, its logarithm is
  already rounded down to an integer (\<open>Math.floor\<close> leaves it unchanged), its powers are
  those of a finite base with an integer exponent, and it prints a finite number by the
  digits of its integer part in exponent form, which is what the engine prints for an
  integer from \<open>10^21\<close> on that has at most 17 significant digits.
\<close>

definition floor_log10 :: "rat \<Rightarrow> int" where
  "floor_log10 q =
     (if q \<ge> 1 then int (length (decimal \<lfloor>q\<rfloor>)) - 1
      else - int (length (decimal (\<lceil>1 / q\<rceil> - 1))))"

definition ideal_log10 :: "jsnum \<Rightarrow> jsnum" where
  "ideal_log10 a =
     (case a of
        Fin q \<Rightarrow> if q > 0 then Fin (of_int (floor_log10 q)) else if q = 0 then NegInf else NaN
      | NegZero \<Rightarrow> NegInf
      | PosInf \<Rightarrow> PosInf
      | _ \<Rightarrow> NaN)"

definition ideal_pow :: "jsnum \<Rightarrow> jsnum \<Rightarrow> jsnum" where
  "ideal_pow a b =
     (case (a, b) of
        (Fin x, Fin y) \<Rightarrow> if x = 0 \<and> y < 0 then PosInf else Fin (x powi \<lfloor>y\<rfloor>)
      | (Fin x, PosInf) \<Rightarrow> if \<bar>x\<bar> > 1 then PosInf else if \<bar>x\<bar> = 1 then NaN else Fin 0
      | (Fin x, NegInf) \<Rightarrow> if \<bar>x\<bar> > 1 then Fin 0 else if \<bar>x\<bar> = 1 then NaN else PosInf
      | (_, NegZero) \<Rightarrow> Fin 1
      | _ \<Rightarrow> NaN)"

fun strip_zeros :: "string \<Rightarrow> string" where
  "strip_zeros [] = []"
| "strip_zeros (c # cs) =
     (case strip_zeros cs of
        [] \<Rightarrow> (if c = CHR ''0'' then [] else [c])
      | r \<Rightarrow> c # r)"

definition ideal_toString :: "rat \<Rightarrow> string" where
  "ideal_toString q =
     (let ds = decimal \<lfloor>\<bar>q\<bar>\<rfloor>;
          sig = strip_zeros ds
      in (if q < 0 then ''-'' else '''') @
         (case sig of
            [] \<Rightarrow> ''0''
          | d # rest \<Rightarrow>
              d # (if rest = [] then [] else CHR ''.'' # rest) @ ''e+'' @ decimal (int (length ds) - 1)))"

definition ideal_host :: js_host where
  "ideal_host =
     \<lparr> host_div = (\<lambda>a b. Fin (a / b)),
       host_log10 = ideal_log10,
       host_pow = ideal_pow,
       host_toString = ideal_toString \<rparr>"

section \<open>Display components\<close>

text \<open>
  A component is modelled by the data it puts on the screen: the rows of the table, the
  points of the chart, the lines of the tooltip. Titles, style classes, the axis scale
  and the PNG export are left out.
\<close>

subsection \<open>Labels (BenchmarkChart.tsx, formatLabel; the same code builds the table's displayName)\<close>

text \<open>\<open>if (c.cipherMode) parts.push(c.cipherMode)\<close>: pushed when neither null nor empty.\<close>

definition truthy :: "string option \<Rightarrow> string list" where
  "truthy v = (case v of Some s \<Rightarrow> (if s \<noteq> [] then [s] else []) | None \<Rightarrow> [])"

text \<open>
  The array \<open>parts\<close> before \<open>filter(Boolean)\<close>. The last branch is the \<open>else\<close> of the
  source: the category is neither \<open>Symmetric\<close> nor \<open>KDF\<close>.
\<close>

definition labelParts :: "bool \<Rightarrow> bool \<Rightarrow> BenchmarkComparison \<Rightarrow> string list" where
  "labelParts hasMultipleAlgorithms hasMultipleOperations c =
     (let parts =
            (if hasMultipleAlgorithms then [formatAlgorithmName (algorithm c)] else []) @
            (if hasMultipleOperations then [formatOperationName (operation c)] else [])
      in case category c of
           Symmetric \<Rightarrow> parts @ [variant c] @ truthy (cipherMode c) @ truthy (padding c)
         | KDF \<Rightarrow>
             (let parts' = parts @ truthy (hashAlgorithm c) @ truthy (iterations c)
              in if length parts' = 0 then parts' @ [variant c] else parts')
         | PQC \<Rightarrow>
             (let variant' = (if variant c \<noteq> ''default'' then variant c else [])
              in if variant' \<noteq> [] then parts @ [formatVariantName variant'] else parts))"


text \<open>The separators: two spaces, a middle dot (as each file has it), two spaces.\<close>

definition chart_separator :: string where
  "chart_separator = [CHR '' '', CHR '' '', CHR 0xC2, CHR 0xB7, CHR '' '', CHR '' '']"

definition table_separator :: string where
  "table_separator =
     [CHR '' '', CHR '' '', CHR 0xC3, CHR 0x82, CHR 0xC2, CHR 0xB7, CHR '' '', CHR '' '']"

record LabelContext =
  hasMultipleAlgorithms :: bool
  hasMultipleOperations :: bool

definition formatLabel :: "BenchmarkComparison \<Rightarrow> LabelContext \<Rightarrow> string" where
  "formatLabel comparison context =
     join chart_separator
       (filter (\<lambda>s. s \<noteq> [])
          (labelParts (hasMultipleAlgorithms context) (hasMultipleOperations context) comparison))"

definition table_displayName :: "bool \<Rightarrow> bool \<Rightarrow> BenchmarkComparison \<Rightarrow> string" where
  "table_displayName hasMA hasMO c =
     join table_separator (filter (\<lambda>s. s \<noteq> []) (labelParts hasMA hasMO c))"

text \<open>\<open>new Set(comparisons.map(f)).size > 1\<close>.\<close>

definition hasMultiple :: "(BenchmarkComparison \<Rightarrow> string) \<Rightarrow> BenchmarkComparison list \<Rightarrow> bool" where
  "hasMultiple f cs = (length (remdups (map f cs)) > 1)"

subsection \<open>The table (BenchmarkTable.tsx)\<close>

text \<open>
  BenchmarkTable.tsx is in the sources as unnamed/part_001. The ratio is computed in the
  row, from the two scores; \<open>BenchmarkComparison\<close> has no field for it.
\<close>

definition table_ratio :: "js_host \<Rightarrow> BenchmarkComparison \<Rightarrow> jsnum option" where
  "table_ratio H c =
     (case (bcScore c, jostleScore c) of
        (Some b, Some j) \<Rightarrow> Some (js_div H j b)
      | _ \<Rightarrow> None)"

text \<open>The pair \<open>(winner, winnerKey)\<close>; \<open>jmhMode\<close> is the component's property.\<close>

definition table_winner :: "JmhMode \<Rightarrow> BenchmarkComparison \<Rightarrow> string \<times> string" where
  "table_winner jmhMode' c =
     (case (bcScore c, jostleScore c) of
        (Some b, Some j) \<Rightarrow>
          (let isHigherBetter = (jmhMode' = thrpt) in
           if isHigherBetter
           then (if js_gt j b then (''Jostle'', ''jostle'') else (''BC'', ''bc''))
           else (if js_lt j b then (''Jostle'', ''jostle'') else (''BC'', ''bc'')))
      | _ \<Rightarrow> (''N/A'', []))"

record TableRow =
  row_key :: string
  row_displayName :: string
  row_bcScore :: string
  row_bcError :: string
  row_jostleScore :: string
  row_jostleError :: string
  row_ratio :: string
  row_winner :: string

definition table_row :: "js_host \<Rightarrow> JmhMode \<Rightarrow> bool \<Rightarrow> bool \<Rightarrow> BenchmarkComparison \<Rightarrow> TableRow" where
  "table_row H jmhMode' hasMA hasMO c =
     \<lparr> row_key = idC c,
       row_displayName = table_displayName hasMA hasMO c,
       row_bcScore = formatScoreValue H (bcScore c),
       row_bcError = formatErrorMargin H (bcError c),
       row_jostleScore = formatScoreValue H (jostleScore c),
       row_jostleError = formatErrorMargin H (jostleError c),
       row_ratio = formatRatio H (table_ratio H c),
       row_winner = fst (table_winner jmhMode' c) \<rparr>"

datatype TableView = TableEmpty string | TableRows string "TableRow list"

text \<open>\<open>TableRows unit rows\<close>: the unit in the subtitle is that of the first comparison.\<close>

definition BenchmarkTable :: "js_host \<Rightarrow> BenchmarkComparison list \<Rightarrow> JmhMode \<Rightarrow> TableView" where
  "BenchmarkTable H comparisons' jmhMode' =
     (if length comparisons' = 0 then TableEmpty ''No data available.''
      else TableRows (scoreUnit (hd comparisons'))
             (map (table_row H jmhMode' (hasMultiple algorithm comparisons')
                     (hasMultiple operation comparisons')) comparisons'))"

subsection \<open>The chart and its tooltip (BenchmarkChart.tsx)\<close>

record ChartDataPoint =
  dp_name :: string
  dp_bc :: "jsnum option"
  dp_bcError :: "jsnum option"
  dp_jostle :: "jsnum option"
  dp_jostleError :: "jsnum option"
  dp_unit :: string
  dp_jmhMode :: JmhMode
  dp_fullData :: BenchmarkComparison
  dp_algorithmDisplay :: string
  dp_operationDisplay :: string
  dp_variantDisplay :: string

definition chartData :: "BenchmarkComparison list \<Rightarrow> JmhMode \<Rightarrow> ChartDataPoint list" where
  "chartData comparisons' jmhMode' =
     (let labelContext =
            \<lparr> hasMultipleAlgorithms = hasMultiple algorithm comparisons',
              hasMultipleOperations = hasMultiple operation comparisons' \<rparr>
      in map (\<lambda>c.
           \<lparr> dp_name = formatLabel c labelContext,
             dp_bc = bcScore c,
             dp_bcError = bcError c,
             dp_jostle = jostleScore c,
             dp_jostleError = jostleError c,
             dp_unit = scoreUnit c,
             dp_jmhMode = jmhMode',
             dp_fullData = c,
             dp_algorithmDisplay = formatAlgorithmName (algorithm c),
             dp_operationDisplay = formatOperationName (operation c),
             dp_variantDisplay = formatVariantName (variant c) \<rparr>) comparisons')"

datatype ChartView = ChartEmpty string | Chart string "ChartDataPoint list"

definition BenchmarkChart :: "BenchmarkComparison list \<Rightarrow> JmhMode \<Rightarrow> ChartView" where
  "BenchmarkChart comparisons' jmhMode' =
     (if length comparisons' = 0 then ChartEmpty ''No data available for this selection.''
      else Chart (scoreUnit (hd comparisons')) (chartData comparisons' jmhMode'))"

definition tooltip_winner :: "ChartDataPoint \<Rightarrow> string" where
  "tooltip_winner data =
     (let isHigherBetter = (dp_jmhMode data = thrpt) in
      case (dp_bc data, dp_jostle data) of
        (Some b, Some j) \<Rightarrow>
          (let jostleWins = (if isHigherBetter then js_gt j b else js_lt j b)
           in if jostleWins then ''Jostle'' else ''BC'')
      | _ \<Rightarrow> [])"

text \<open>The row "Ratio (Jostle/BC)": present when both scores are.\<close>

definition tooltip_ratio :: "js_host \<Rightarrow> ChartDataPoint \<Rightarrow> string option" where
  "tooltip_ratio H data =
     (case (dp_bc data, dp_jostle data) of
        (Some b, Some j) \<Rightarrow> Some (toFixed H 3 (js_div H j b) @ ''x'')
      | _ \<Rightarrow> None)"

record TooltipView =
  tt_algorithm :: string
  tt_operation :: string
  tt_variant :: string
  tt_ratio :: "string option"
  tt_winner :: string

text \<open>
  \<open>payload\<close> is the list of the hovered bars' data points; the tooltip reads the first.
  The percentage beside the winner is not modelled.
\<close>

definition CustomTooltip :: "js_host \<Rightarrow> bool \<Rightarrow> ChartDataPoint list option \<Rightarrow> TooltipView option" where
  "CustomTooltip H active payload =
     (case payload of
        None \<Rightarrow> None
      | Some [] \<Rightarrow> None
      | Some (data # _) \<Rightarrow>
          if \<not> active then None
          else Some \<lparr> tt_algorithm = dp_algorithmDisplay data,
                      tt_operation = dp_operationDisplay data,
                      tt_variant = dp_variantDisplay data,
                      tt_ratio = tooltip_ratio H data,
                      tt_winner = tooltip_winner data \<rparr>)"

subsection \<open>The content panel (BenchmarkView.tsx) and the application (App.tsx)\<close>

datatype ViewMode = vm_chart | vm_table | vm_both

record ModeSection =
  sec_mode :: JmhMode
  sec_chart :: "ChartView option"
  sec_table :: "TableView option"

text \<open>
  What the panel shows: the prompt to select a benchmark, or the resolved node with one
  section for each measurement mode and the flag of the "No benchmarks found for the
  selected filters." line. The breadcrumbs, the title and the counters of the header,
  which the panel computes only once the node is found, are left out.
\<close>

datatype ViewRender =
  ViewPrompt string
| ViewNode HierarchyNode "ModeSection list" bool

text \<open>The \<open>Map\<close> from mode to comparisons: keys in the order they are first set.\<close>

definition group_push ::
  "BenchmarkComparison \<Rightarrow> (JmhMode \<times> BenchmarkComparison list) list \<Rightarrow>
   (JmhMode \<times> BenchmarkComparison list) list" where
  "group_push c groups =
     (if jmhMode c \<in> fst ` set groups
      then map (\<lambda>(m, cs). if m = jmhMode c then (m, cs @ [c]) else (m, cs)) groups
      else groups @ [(jmhMode c, [c])])"

definition groupedByJmhMode ::
  "BenchmarkComparison list \<Rightarrow> (JmhMode \<times> BenchmarkComparison list) list" where
  "groupedByJmhMode cs = foldl (\<lambda>groups c. group_push c groups) [] cs"

text \<open>
  \<open>filterByJmhMode\<close> is imported from data/parser, which is not among the sources: it is
  the parameter \<open>flt\<close>. \<open>viewMode\<close> and \<open>selectedJmhMode\<close> are the component's state
  (\<open>None\<close> is \<open>'all'\<close>); they start as \<open>vm_both\<close> and \<open>None\<close>.
\<close>

definition BenchmarkView ::
  "(BenchmarkComparison list \<Rightarrow> JmhMode \<Rightarrow> BenchmarkComparison list) \<Rightarrow> js_host \<Rightarrow>
   HierarchyNode \<Rightarrow> string \<Rightarrow> ViewMode \<Rightarrow> JmhMode option \<Rightarrow> ViewRender" where
  "BenchmarkView flt H hierarchy selectedPath viewMode selectedJmhMode =
     (case findNode hierarchy selectedPath of
        None \<Rightarrow> ViewPrompt ''Select a benchmark from the sidebar to view results.''
      | Some node \<Rightarrow>
          (let comparisons' = comparisons node;
               filteredComparisons =
                 (case selectedJmhMode of
                    None \<Rightarrow> comparisons'
                  | Some m \<Rightarrow> flt comparisons' m)
           in ViewNode node
                (map (\<lambda>(m, modeComparisons).
                        \<lparr> sec_mode = m,
                          sec_chart =
                            (if viewMode = vm_chart \<or> viewMode = vm_both
                             then Some (BenchmarkChart modeComparisons m) else None),
                          sec_table =
                            (if viewMode = vm_table \<or> viewMode = vm_both
                             then Some (BenchmarkTable H modeComparisons m) else None) \<rparr>)
                   (groupedByJmhMode filteredComparisons))
                (length filteredComparisons = 0)))"

text \<open>
  The application's state (App.tsx). A finished load stores the new tree and leaves
  \<open>selectedPath\<close> as it is; only a click in the sidebar sets it. The panel is
  rendered with its own state as it is at mount.
\<close>

record AppState =
  app_hierarchy :: "HierarchyNode option"
  app_selectedPath :: string
  app_loading :: bool
  app_error :: "string option"

definition App_initial :: AppState where
  "App_initial =
     \<lparr> app_hierarchy = None, app_selectedPath = [], app_loading = True, app_error = None \<rparr>"

definition App_loaded :: "HierarchyNode \<Rightarrow> AppState \<Rightarrow> AppState" where
  "App_loaded h st = st \<lparr> app_hierarchy := Some h, app_loading := False \<rparr>"

definition App_select :: "string \<Rightarrow> AppState \<Rightarrow> AppState" where
  "App_select p st = st \<lparr> app_selectedPath := p \<rparr>"

datatype AppRender = AppLoading | AppError string | AppMain ViewRender

definition App ::
  "(BenchmarkComparison list \<Rightarrow> JmhMode \<Rightarrow> BenchmarkComparison list) \<Rightarrow> js_host \<Rightarrow>
   AppState \<Rightarrow> AppRender" where
  "App flt H st =
     (if app_loading st then AppLoading
      else case (app_error st, app_hierarchy st) of
             (Some e, _) \<Rightarrow> AppError e
           | (None, None) \<Rightarrow> AppError ''Unknown error occurred''
           | (None, Some h) \<Rightarrow>
               AppMain (BenchmarkView flt H h (app_selectedPath st) vm_both None))"

section \<open>The harness's provider (CryptoBenchmark.java)\<close>










section \<open>Concrete inputs\<close>

text \<open>
  The specification's scenario: \<open>Aes/Encrypt/CBC/PKCS5\<close> in throughput mode, provider A
  (BC) at 120.5 ops/s and provider B (Jostle) at 98.3 ops/s.
\<close>

definition example_raw :: "string \<Rightarrow> rat \<Rightarrow> rat \<Rightarrow> string \<Rightarrow> JmhBenchmarkResult" where
  "example_raw prov sc err unit' =
     \<lparr> benchmark = ''Aes/Encrypt/CBC/PKCS5'', raw_mode = thrpt,
       params = [(''providerName'', prov)],
       primaryMetric = \<lparr> pm_score = Fin sc, pm_scoreError = Fin err, pm_scoreUnit = unit' \<rparr> \<rparr>"





text \<open>The entity of the scenario: both sides present.\<close>

definition example_comparison :: BenchmarkComparison where
  "example_comparison =
     \<lparr> idC = ''Symmetric/Aes/encrypt/default/CBC/PKCS5'', category = Symmetric,
       algorithm = ''Aes'', operation = ''encrypt'', variant = ''default'', mode = None,
       cipherMode = Some ''CBC'', padding = Some ''PKCS5'', hashAlgorithm = None,
       iterations = None, jmhMode = thrpt, scoreUnit = ''ops/s'',
       bcScore = Some (Fin (1205 / 10)), bcError = Some (Fin (12 / 10)),
       jostleScore = Some (Fin (983 / 10)), jostleError = Some (Fin (9 / 10)),
       bcRaw = Some (example_raw ''BC'' (1205 / 10) (12 / 10) ''ops/s''),
       jostleRaw = Some (example_raw ''Jostle'' (983 / 10) (9 / 10) ''ops/s'') \<rparr>"

text \<open>A post-quantum entity and a key-derivation entity.\<close>

definition example_pqc :: BenchmarkComparison where
  "example_pqc =
     example_comparison \<lparr> idC := ''PQC/MlKem/keyGen/MlKem768'', category := PQC,
       algorithm := ''MlKem'', operation := ''keyGen'', variant := ''MlKem768'',
       cipherMode := None, padding := None \<rparr>"

definition example_kdf :: BenchmarkComparison where
  "example_kdf =
     example_comparison \<lparr> idC := ''KDF/Pbkdf2/SHA256/default/1000'', category := KDF,
       algorithm := ''Pbkdf2'', operation := ''deriveKey'', cipherMode := None,
       padding := None, hashAlgorithm := Some ''SHA256'', iterations := Some ''1000'' \<rparr>"

text \<open>A small tree: the root, two categories, and one algorithm below the first.\<close>

definition example_tree :: HierarchyNode where
  "example_tree =
     HierarchyNode [] []
       [HierarchyNode ''PQC'' ''PQC''
          [HierarchyNode ''MlKem'' ''PQC/MlKem'' [] [example_pqc]]
          [example_pqc],
        HierarchyNode ''KDF'' ''KDF'' [] [example_kdf]]
       [example_pqc, example_kdf]"

text \<open>
  The filter that the name \<open>filterByJmhMode\<close> announces, for the examples that need a
  concrete one.
\<close>

definition example_filter :: "BenchmarkComparison list \<Rightarrow> JmhMode \<Rightarrow> BenchmarkComparison list" where
  "example_filter cs m = filter (\<lambda>c. jmhMode c = m) cs"


section \<open>The load pipeline (data/parser, modelled from the specification)\<close>

text \<open>
  The components import \<open>loadBenchmarkData\<close> from data/parser, a file that is not among
  the sources. Its pair-matcher and hierarchy builder are written here from the
  specification (sections 4.2 and 4.3), over the record types that types/benchmark.ts
  declares. The specification gives no rule table for the classifier, so it is the
  parameter \<open>classify\<close>: \<open>None\<close> is a classification failure.
\<close>

subsection \<open>Pair-matcher\<close>

text \<open>
  Modelled from the spec: data/parser's pair-matcher is missing. The join key is all
  classification fields and the mode, without the provider and the scores.
\<close>

definition joinKey ::
  "'a Classified_scheme \<Rightarrow>
   BenchmarkCategory \<times> string \<times> string \<times> string \<times> string option \<times> string option \<times>
   string option \<times> string option \<times> string option \<times> JmhMode" where
  "joinKey r =
     (category r, algorithm r, operation r, variant r, mode r, cipherMode r, padding r,
      hashAlgorithm r, iterations r, jmhMode r)"

datatype Anomaly = ClassificationFailure | DuplicateProviderEntry | UnitMismatch

text \<open>
  Modelled from the spec: the entity a first record of a key creates. It takes the
  record's classification and unit and fills the side of the record's provider; the
  other side stays absent.
\<close>

definition newEntity :: "ParsedBenchmark \<Rightarrow> BenchmarkComparison" where
  "newEntity r =
     \<lparr> idC = idC r, category = category r, algorithm = algorithm r, operation = operation r,
       variant = variant r, mode = mode r, cipherMode = cipherMode r, padding = padding r,
       hashAlgorithm = hashAlgorithm r, iterations = iterations r, jmhMode = jmhMode r,
       scoreUnit = scoreUnit r,
       bcScore = (if provider r = BC then Some (score r) else None),
       bcError = (if provider r = BC then Some (scoreError r) else None),
       jostleScore = (if provider r = Jostle then Some (score r) else None),
       jostleError = (if provider r = Jostle then Some (scoreError r) else None),
       bcRaw = (if provider r = BC then Some (rawData r) else None),
       jostleRaw = (if provider r = Jostle then Some (rawData r) else None) \<rparr>"

text \<open>
  Modelled from the spec: a later record of the key fills (or, for a duplicate, replaces:
  last write wins) the slot of its provider; the unit stays the first-seen one.
\<close>

definition fillSide :: "ParsedBenchmark \<Rightarrow> BenchmarkComparison \<Rightarrow> BenchmarkComparison" where
  "fillSide r e =
     (case provider r of
        BC \<Rightarrow> e \<lparr> bcScore := Some (score r), bcError := Some (scoreError r),
                    bcRaw := Some (rawData r) \<rparr>
      | Jostle \<Rightarrow> e \<lparr> jostleScore := Some (score r), jostleError := Some (scoreError r),
                        jostleRaw := Some (rawData r) \<rparr>)"

fun upsert :: "ParsedBenchmark \<Rightarrow> BenchmarkComparison list \<Rightarrow> BenchmarkComparison list" where
  "upsert r [] = [newEntity r]"
| "upsert r (e # es) =
     (if joinKey e = joinKey r then fillSide r e # es else e # upsert r es)"

text \<open>Modelled from the spec: the anomalies a record raises against the entity of its key.\<close>

definition sideAnomalies :: "ParsedBenchmark \<Rightarrow> BenchmarkComparison \<Rightarrow> Anomaly list" where
  "sideAnomalies r e =
     (if (case provider r of BC \<Rightarrow> bcScore e | Jostle \<Rightarrow> jostleScore e) \<noteq> None
      then [DuplicateProviderEntry] else []) @
     (if scoreUnit r \<noteq> scoreUnit e then [UnitMismatch] else [])"

definition pairStep ::
  "BenchmarkComparison list \<times> Anomaly list \<Rightarrow> ParsedBenchmark \<Rightarrow>
   BenchmarkComparison list \<times> Anomaly list" where
  "pairStep acc r =
     (case acc of (es, anomalies) \<Rightarrow>
        (upsert r es,
         anomalies @
           (case find (\<lambda>e. joinKey e = joinKey r) es of
              None \<Rightarrow> []
            | Some e \<Rightarrow> sideAnomalies r e)))"

text \<open>
  Modelled from the spec: the pair-matcher, one pass over the classified records in
  input order.
\<close>

definition pairMatcher :: "ParsedBenchmark list \<Rightarrow> BenchmarkComparison list \<times> Anomaly list" where
  "pairMatcher rs = foldl pairStep ([], []) rs"



subsection \<open>Hierarchy builder\<close>

definition categoryName :: "BenchmarkCategory \<Rightarrow> string" where
  "categoryName c = (case c of PQC \<Rightarrow> ''PQC'' | KDF \<Rightarrow> ''KDF'' | Symmetric \<Rightarrow> ''Symmetric'')"

text \<open>
  Modelled from the spec: an entity's path segments, "[category, algorithm,
  operation-or-hash-algorithm, variant, any further sub-fields present]". The third
  segment of a key-derivation entity is its hash algorithm when it has one.
\<close>

definition pathSegments :: "BenchmarkComparison \<Rightarrow> string list" where
  "pathSegments c =
     [categoryName (category c), algorithm c,
      (case (category c, hashAlgorithm c) of (KDF, Some h) \<Rightarrow> h | _ \<Rightarrow> operation c),
      variant c] @
     (case cipherMode c of Some m \<Rightarrow> [m] | None \<Rightarrow> []) @
     (case padding c of Some p \<Rightarrow> [p] | None \<Rightarrow> []) @
     (case iterations c of Some i \<Rightarrow> [i] | None \<Rightarrow> [])"

text \<open>Modelled from the spec: a path is the slash-joined sequence of its segments.\<close>

definition joinPath :: "string list \<Rightarrow> string" where
  "joinPath segs = join ''/'' segs"


text \<open>
  Modelled from the spec: insertion walks the segments from the root. \<open>pre\<close> are the
  segments already walked, so the node at hand has the path \<open>joinPath pre\<close>. At each
  step the child with the next prefix's path is appended when absent (siblings keep
  their first-seen order), the walk goes down into it, and the entity is appended to the
  comparisons of every node on the way, the last one included.
\<close>

definition ensureChild :: "string \<Rightarrow> string \<Rightarrow> HierarchyNode list \<Rightarrow> HierarchyNode list" where
  "ensureChild s cp cs = (if cp \<in> path ` set cs then cs else cs @ [HierarchyNode s cp [] []])"

fun insertPath ::
  "BenchmarkComparison \<Rightarrow> string list \<Rightarrow> string list \<Rightarrow> HierarchyNode \<Rightarrow> HierarchyNode" where
  "insertPath e pre [] (HierarchyNode nm p cs comps) = HierarchyNode nm p cs (comps @ [e])"
| "insertPath e pre (s # segs) (HierarchyNode nm p cs comps) =
     HierarchyNode nm p
       (map (\<lambda>c. if path c = joinPath (pre @ [s]) then insertPath e (pre @ [s]) segs c else c)
          (ensureChild s (joinPath (pre @ [s])) cs))
       (comps @ [e])"

text \<open>Modelled from the spec: the root has the empty path; the tree is built from scratch.\<close>

definition emptyRoot :: HierarchyNode where
  "emptyRoot = HierarchyNode [] [] [] []"

definition buildHierarchy :: "BenchmarkComparison list \<Rightarrow> HierarchyNode" where
  "buildHierarchy es = foldl (\<lambda>t e. insertPath e [] (pathSegments e) t) emptyRoot es"



subsection \<open>The load\<close>

record LoadResult =
  hierarchy :: HierarchyNode
  anomalies :: "Anomaly list"

text \<open>
  Modelled from the spec: classify every record, drop and count the failures, pair the
  rest, build the tree. No step fails.
\<close>

definition loadBenchmarkData ::
  "(JmhBenchmarkResult \<Rightarrow> ParsedBenchmark option) \<Rightarrow> JmhBenchmarkResult list \<Rightarrow> LoadResult" where
  "loadBenchmarkData classify records =
     (let classified = map classify records;
          paired = pairMatcher (List.map_filter id classified)
      in \<lparr> hierarchy = buildHierarchy (fst paired),
           anomalies =
             replicate (length (filter (\<lambda>r. r = None) classified)) ClassificationFailure @
             snd paired \<rparr>)"

section \<open>Verification\<close>

subsection \<open>Lookup by path\<close>

lemma findNode_sound:
  "findNode h p = Some n \<longrightarrow> n \<in> set (allNodes h) \<and> (p \<noteq> [] \<longrightarrow> path n = p)"
  "findNode_children cs p = Some n \<longrightarrow> p \<noteq> [] \<longrightarrow>
     (\<exists>c\<in>set cs. n \<in> set (allNodes c)) \<and> path n = p"
proof (induction h p and cs p rule: findNode_findNode_children.induct)
  case (1 nm pa cs comps p)
  then show ?case by auto
next
  case (2 p)
  then show ?case by simp
next
  case (3 c cs p)
  then show ?case
    by (cases c) (auto split: option.splits if_splits)
qed

lemma findNode_complete:
  "findNode h p = None \<longrightarrow> (\<forall>n\<in>set (allNodes h). path n \<noteq> p)"
  "findNode_children cs p = None \<longrightarrow> (\<forall>c\<in>set cs. \<forall>n\<in>set (allNodes c). path n \<noteq> p)"
proof (induction h p and cs p rule: findNode_findNode_children.induct)
  case (1 nm pa cs comps p)
  then show ?case by auto
next
  case (2 p)
  then show ?case by simp
next
  case (3 c cs p)
  then show ?case
    by (cases c) (auto split: option.splits if_splits)
qed

lemma findNode_empty_path: "findNode h [] = Some h"
  by (cases h) simp

lemma findNode_path:
  assumes "p = [] \<longrightarrow> path h = []" and "findNode h p = Some n"
  shows "path n = p"
proof (cases "p = []")
  case True
  with assms findNode_empty_path [of h] show ?thesis by simp
next
  case False
  with assms(2) findNode_sound(1) show ?thesis by blast
qed

text \<open>
  C4. On a hierarchy tree (its root has the empty path), \<open>findNode\<close> returns a node of
  the tree whose path is the path asked for, the root for the empty path, and it returns
  \<open>None\<close> exactly when no node of the tree has that path. For a path that is not
  empty this holds on every tree of nodes, whatever the root's path.
\<close>

theorem findNode_correct:
  assumes "p = [] \<longrightarrow> path h = []"
  shows "(\<forall>n. findNode h p = Some n \<longrightarrow> n \<in> set (allNodes h) \<and> path n = p)
       \<and> (p = [] \<longrightarrow> findNode h p = Some h)
       \<and> (findNode h p = None \<longleftrightarrow> (\<forall>n\<in>set (allNodes h). path n \<noteq> p))"
proof (intro conjI allI impI)
  fix n assume found: "findNode h p = Some n"
  show "n \<in> set (allNodes h)" using findNode_sound(1) found by blast
  show "path n = p" using findNode_path [OF assms found] .
next
  assume "p = []"
  then show "findNode h p = Some h" by (simp add: findNode_empty_path)
next
  show "findNode h p = None \<longleftrightarrow> (\<forall>n\<in>set (allNodes h). path n \<noteq> p)"
  proof
    assume "findNode h p = None"
    with findNode_complete(1) show "\<forall>n\<in>set (allNodes h). path n \<noteq> p" by blast
  next
    assume none: "\<forall>n\<in>set (allNodes h). path n \<noteq> p"
    show "findNode h p = None"
    proof (cases "findNode h p")
      case None
      then show ?thesis .
    next
      case (Some n)
      then have "n \<in> set (allNodes h)" using findNode_sound(1) by blast
      moreover have "path n = p" using findNode_path [OF assms Some] .
      ultimately show ?thesis using none by blast
    qed
  qed
qed

theorem findNode_correct_witness:
  "path example_tree = []
   \<and> findNode example_tree [] = Some example_tree
   \<and> map_option path (findNode example_tree ''PQC/MlKem'') = Some ''PQC/MlKem''
   \<and> findNode example_tree ''PQC/Gone'' = None"
proof -
  have root: "path example_tree = []" by code_simp
  then have hyp: "p = [] \<longrightarrow> path example_tree = []" for p by simp
  have absent: "\<forall>n\<in>set (allNodes example_tree). path n \<noteq> ''PQC/Gone''" by code_simp
  have present: "findNode example_tree ''PQC/MlKem'' \<noteq> None" by code_simp
  from findNode_correct [OF hyp, of "''PQC/Gone''"] absent
  have "findNode example_tree ''PQC/Gone'' = None" by blast
  moreover from findNode_correct [OF hyp, of "[]"]
  have "findNode example_tree [] = Some example_tree" by blast
  moreover from findNode_correct [OF hyp, of "''PQC/MlKem''"] present
  have "map_option path (findNode example_tree ''PQC/MlKem'') = Some ''PQC/MlKem''" by auto
  ultimately show ?thesis using root by simp
qed

subsection \<open>Selection of a path that is gone\<close>

text \<open>
  C5 as stated: a selected path that resolves to no node shows what the empty path (the
  root) shows. It fails on the three-entity tree with the path \<open>PQC/Gone\<close>.
\<close>

theorem missing_path_counterexample:
  "findNode example_tree ''PQC/Gone'' = None
   \<and> BenchmarkView example_filter ideal_host example_tree ''PQC/Gone'' vm_both None
       = ViewPrompt ''Select a benchmark from the sidebar to view results.''
   \<and> BenchmarkView example_filter ideal_host example_tree ''PQC/Gone'' vm_both None
       \<noteq> BenchmarkView example_filter ideal_host example_tree [] vm_both None"
proof -
  have none: "findNode example_tree ''PQC/Gone'' = None" by code_simp
  have "BenchmarkView example_filter ideal_host example_tree ''PQC/Gone'' vm_both None
        = ViewPrompt ''Select a benchmark from the sidebar to view results.''"
    by (simp add: BenchmarkView_def none)
  moreover have "\<exists>n s b. BenchmarkView example_filter ideal_host example_tree [] vm_both None = ViewNode n s b"
    by (simp add: BenchmarkView_def findNode_empty_path Let_def)
  ultimately show ?thesis using none by auto
qed

text \<open>
  C5, amended. A selected path that resolves to no node of the tree shows the prompt
  "Select a benchmark from the sidebar to view results.", whatever the view mode and the
  mode filter; a finished load keeps the selected path, so the application shows that
  prompt after a load whose tree lacks the selected path. The root's view is what the
  empty path shows.
\<close>

theorem missing_path_shows_prompt:
  assumes "findNode h p = None"
  shows "BenchmarkView flt H h p vm sel
           = ViewPrompt ''Select a benchmark from the sidebar to view results.''
       \<and> (app_error st = None \<longrightarrow> app_selectedPath st = p \<longrightarrow>
            App flt H (App_loaded h st)
              = AppMain (ViewPrompt ''Select a benchmark from the sidebar to view results.''))
       \<and> (\<exists>secs b. BenchmarkView flt H h [] vm sel = ViewNode h secs b)"
  using assms
  by (simp add: BenchmarkView_def App_def App_loaded_def findNode_empty_path Let_def)

theorem missing_path_shows_prompt_witness:
  "findNode example_tree ''PQC/Gone'' = None
   \<and> App example_filter ideal_host (App_loaded example_tree (App_select ''PQC/Gone'' App_initial))
       = AppMain (ViewPrompt ''Select a benchmark from the sidebar to view results.'')"
proof -
  have none: "findNode example_tree ''PQC/Gone'' = None" by code_simp
  have "app_error (App_select ''PQC/Gone'' App_initial) = None"
    and "app_selectedPath (App_select ''PQC/Gone'' App_initial) = ''PQC/Gone''"
    by (simp_all add: App_select_def App_initial_def)
  with missing_path_shows_prompt [OF none, of example_filter ideal_host vm_both None
      "App_select ''PQC/Gone'' App_initial"] none
  show ?thesis by simp
qed

subsection \<open>The winner\<close>




subsection \<open>The provider of the harness\<close>








subsection \<open>The ratio\<close>







subsection \<open>The display label\<close>




subsection \<open>Score values\<close>

lemma digit_char_is_digit: "d < 10 \<Longrightarrow> is_digit (digit_char d)"
proof -
  have "\<forall>d\<in>set [0..<10]. is_digit (digit_char d)" by code_simp
  then show "d < 10 \<Longrightarrow> is_digit (digit_char d)" by simp
qed

lemma decimal_digits: "0 \<le> n \<Longrightarrow> list_all is_digit (decimal n) \<and> decimal n \<noteq> []"
  supply decimal.simps [simp del]
proof (induction n rule: decimal.induct)
  case (1 n)
  show ?case
  proof (cases "n < 10")
    case True
    then have eq: "decimal n = [digit_char (nat n)]" by (subst decimal.simps) simp
    from True "1.prems" have "nat n < 10" by simp
    then show ?thesis unfolding eq using digit_char_is_digit by simp
  next
    case False
    then have eq: "decimal n = decimal (n div 10) @ [digit_char (nat (n mod 10))]"
      by (subst decimal.simps) simp
    from False have "0 \<le> n div 10" by simp
    with "1.IH" False have ih: "list_all is_digit (decimal (n div 10))" by simp
    have "nat (n mod 10) < 10" by simp
    then have "is_digit (digit_char (nat (n mod 10)))" by (rule digit_char_is_digit)
    with ih show ?thesis unfolding eq by simp
  qed
qed

lemma has_decimals_build:
  assumes "list_all is_digit m" and "f < length m"
  shows "has_decimals f (s @ take (length m - f) m @ ''.'' @ drop (length m - f) m)"
proof -
  define a where "a = take (length m - f) m"
  define b where "b = drop (length m - f) m"
  define t where "t = s @ a @ ''.'' @ b"
  have lb: "length b = f" using assms(2) by (simp add: b_def)
  have la: "a \<noteq> []" using assms(2) by (cases m) (auto simp: a_def)
  have db: "list_all is_digit b"
    using assms(1) by (auto simp: b_def list_all_iff dest: in_set_dropD)
  have "last a \<in> set a" using la by simp
  then have "last a \<in> set m" unfolding a_def by (rule in_set_takeD)
  then have da: "is_digit (last a)" using assms(1) by (simp add: list_all_iff)
  have len: "length t - f = length (s @ a @ ''.'')" using lb by (simp add: t_def)
  have t2: "t = (s @ a @ ''.'') @ b" by (simp add: t_def)
  have d: "drop (length t - f) t = b" unfolding len by (subst t2) simp
  have k: "take (length t - f) t = s @ a @ ''.''" unfolding len by (subst t2) simp
  have "has_decimals f t"
    unfolding has_decimals_def Let_def d k using lb db la da
    by (simp add: butlast_append last_append)
  then show ?thesis by (simp add: t_def a_def b_def)
qed

lemma toFixed_finite_decimals:
  assumes "\<bar>q\<bar> < 10 ^ 21" and "f \<noteq> 0"
  shows "has_decimals f (toFixed_finite H f q)"
  supply decimal.simps [simp del]
proof -
  define m where "m = decimal \<lfloor>\<bar>q\<bar> * 10 ^ f + 1 / 2\<rfloor>"
  define m' where
    "m' = (if length m \<le> f then replicate (f + 1 - length m) (CHR ''0'') @ m else m)"
  define sg where "sg = (if q < 0 then ''-'' else [])"
  have "0 \<le> \<lfloor>\<bar>q\<bar> * 10 ^ f + 1 / 2\<rfloor>" by simp
  then have dm: "list_all is_digit m" unfolding m_def using decimal_digits by blast
  have z: "is_digit (CHR ''0'')" by code_simp
  have dm': "list_all is_digit m'" unfolding m'_def using dm z by (simp add: list_all_iff)
  have lm': "f < length m'" unfolding m'_def by auto
  have k': "(if length m \<le> f then f + 1 else length m) = length m'"
    unfolding m'_def by auto
  have big: "\<not> 10 ^ 21 \<le> \<bar>q\<bar>" using assms(1) by simp
  have "toFixed_finite H f q =
        sg @ take ((if length m \<le> f then f + 1 else length m) - f) m' @ ''.'' @
          drop ((if length m \<le> f then f + 1 else length m) - f) m'"
    unfolding toFixed_finite_def Let_def m'_def m_def sg_def using big assms(2)
    by (simp only: if_False if_True not_False_eq_True)
  then have "toFixed_finite H f q =
        sg @ take (length m' - f) m' @ ''.'' @ drop (length m' - f) m'"
    unfolding k' .
  then show ?thesis using has_decimals_build [OF dm' lm'] by simp
qed


lemma power_of_ten_range_iff:
  "power_of_ten_range v \<longleftrightarrow>
     (case v of Fin q \<Rightarrow> 1000 \<le> q \<or> (0 < q \<and> q < 1 / 100) | PosInf \<Rightarrow> True | _ \<Rightarrow> False)"
  by (cases v) (auto simp: power_of_ten_range_def js_ge_def js_gt_def js_lt_def)

lemma toFixed_zero: "toFixed_finite H 4 0 = ''0.0000''"
  supply decimal.simps [simp del]
proof -
  have d: "decimal 0 = ''0''" by (subst decimal.simps) (simp add: digit_char_def)
  have r: "replicate 4 (CHR ''0'') = ''0000''" by (simp add: numeral_eq_Suc)
  have fl: "\<lfloor>(1 :: rat) / 2\<rfloor> = 0" by (rule floor_unique) simp_all
  show ?thesis by (simp add: toFixed_finite_def Let_def fl d r)
qed

lemma times_ten_not_NA: "m @ times_ten @ e \<noteq> ''N/A''"
proof
  assume "m @ times_ten @ e = ''N/A''"
  then have "length (m @ times_ten @ e) = length ''N/A''" by simp
  then show False by (simp add: times_ten_def)
qed

lemma has_decimals_not_NA: "has_decimals 4 s \<Longrightarrow> s \<noteq> ''N/A''"
  by (auto simp: has_decimals_def Let_def)

lemma toFixed_far_negative:
  assumes "q \<le> - (10 ^ 21)"
  shows "toFixed_finite H f q = ''-'' @ host_toString H (- q)"
  supply decimal.simps [simp del]
proof -
  have "(0 :: rat) < 10 ^ 21" by simp
  then have "q < 0" using assms by linarith
  moreover have "10 ^ 21 \<le> \<bar>q\<bar>" using assms by simp
  ultimately show ?thesis by (simp add: toFixed_finite_def Let_def)
qed

lemma toFixed_out_of_range_not_NA:
  assumes "\<not> power_of_ten_range v"
  shows "toFixed H 4 v \<noteq> ''N/A''"
  supply decimal.simps [simp del]
proof (cases v)
  case (Fin q)
  show ?thesis
  proof (cases "\<bar>q\<bar> < 10 ^ 21")
    case True
    from toFixed_finite_decimals [OF True, of 4 H] has_decimals_not_NA Fin
    show ?thesis by (simp add: toFixed_def)
  next
    case False
    from assms Fin have "q < 1000" by (simp add: power_of_ten_range_iff)
    with False have "q \<le> - (10 ^ 21)" by simp
    from toFixed_far_negative [OF this] Fin show ?thesis by (simp add: toFixed_def)
  qed
next
  case NegZero
  then show ?thesis by (simp add: toFixed_def toFixed_zero)
qed (simp_all add: toFixed_def)


text \<open>
  C10 as stated: outside the power-of-ten range the value is rendered with four decimal
  places. NaN is outside the range and is rendered as "NaN"; the finite value
  \<open>-10^21\<close> is rendered in exponent form.
\<close>

theorem formatScoreValue_nan_counterexample:
  "\<not> power_of_ten_range NaN
   \<and> formatScoreValue ideal_host (Some NaN) = ''NaN''
   \<and> \<not> has_decimals 4 (formatScoreValue ideal_host (Some NaN))
   \<and> formatScoreValue ideal_host (Some (Fin (- (10 ^ 21)))) = ''-1e+21''"
  by code_simp

text \<open>
  C10, amended. \<open>formatScoreValue\<close> is total; it returns "N/A" exactly for null; it
  renders power-of-ten notation (a mantissa, the multiplication sign and 10, a
  superscript exponent) exactly when the value is at least 1000 or strictly between 0 and
  0.01; otherwise it returns \<open>toFixed(4)\<close> of the value, which has four decimal places
  for every finite value above \<open>-10^21\<close> and is "NaN", "-Infinity" or the engine's
  exponent form for NaN, negative infinity and the finite values from \<open>-10^21\<close> down.
  Zero is rendered as "0.0000" and never reaches the power-of-ten formatter.
\<close>

theorem formatScoreValue_branches:
  "(formatScoreValue H v' = ''N/A'' \<longleftrightarrow> v' = None)
   \<and> (\<forall>v. v' = Some v \<longrightarrow>
         (power_of_ten_range v \<longleftrightarrow>
            (case v of Fin q \<Rightarrow> 1000 \<le> q \<or> (0 < q \<and> q < 1 / 100) | PosInf \<Rightarrow> True
             | _ \<Rightarrow> False))
       \<and> (power_of_ten_range v \<longrightarrow>
            formatScoreValue H v' = formatPowerOfTen H v 4
            \<and> (\<exists>m e. formatScoreValue H v' = m @ times_ten @ e))
       \<and> (\<not> power_of_ten_range v \<longrightarrow> formatScoreValue H v' = toFixed H 4 v)
       \<and> (\<not> power_of_ten_range v \<and> (v = NegZero \<or> (\<exists>q. v = Fin q \<and> - (10 ^ 21) < q)) \<longrightarrow>
            has_decimals 4 (formatScoreValue H v'))
       \<and> (v = NaN \<longrightarrow> formatScoreValue H v' = ''NaN'')
       \<and> (v = NegInf \<longrightarrow> formatScoreValue H v' = ''-Infinity'')
       \<and> (\<forall>q. v = Fin q \<and> q \<le> - (10 ^ 21) \<longrightarrow>
            formatScoreValue H v' = ''-'' @ host_toString H (- q)))
   \<and> formatScoreValue H (Some (Fin 0)) = ''0.0000''
   \<and> formatScoreValue H (Some NegZero) = ''0.0000''"
  supply decimal.simps [simp del]
proof (intro conjI allI impI)
  show "formatScoreValue H v' = ''N/A'' \<longleftrightarrow> v' = None"
  proof (cases v')
    case None
    then show ?thesis by (simp add: formatScoreValue_def)
  next
    case (Some v)
    have "formatScoreValue H (Some v) \<noteq> ''N/A''"
      using toFixed_out_of_range_not_NA [of v H] times_ten_not_NA
      by (simp add: formatScoreValue_def formatPowerOfTen_def Let_def)
    with Some show ?thesis by simp
  qed
next
  fix v assume "v' = Some v"
  show "power_of_ten_range v \<longleftrightarrow>
          (case v of Fin q \<Rightarrow> 1000 \<le> q \<or> (0 < q \<and> q < 1 / 100) | PosInf \<Rightarrow> True | _ \<Rightarrow> False)"
    by (rule power_of_ten_range_iff)
next
  fix v assume "v' = Some v" and "power_of_ten_range v"
  then show eq: "formatScoreValue H v' = formatPowerOfTen H v 4"
    by (simp add: formatScoreValue_def)
  show "\<exists>m e. formatScoreValue H v' = m @ times_ten @ e"
    unfolding eq formatPowerOfTen_def Let_def by blast
next
  fix v assume "v' = Some v" and "\<not> power_of_ten_range v"
  then show "formatScoreValue H v' = toFixed H 4 v" by (simp add: formatScoreValue_def)
next
  fix v assume v: "v' = Some v"
    and fin: "\<not> power_of_ten_range v \<and> (v = NegZero \<or> (\<exists>q. v = Fin q \<and> - (10 ^ 21) < q))"
  then have eq: "formatScoreValue H v' = toFixed H 4 v" by (simp add: formatScoreValue_def)
  from fin consider "v = NegZero" | q where "v = Fin q" "- (10 ^ 21) < q" by blast
  then show "has_decimals 4 (formatScoreValue H v')"
  proof cases
    case 1
    have "\<bar>0 :: rat\<bar> < 10 ^ 21" by simp
    from toFixed_finite_decimals [OF this, of 4 H] 1 show ?thesis
      unfolding eq by (simp add: toFixed_def)
  next
    case 2
    from fin 2 have "q < 1000" by (simp add: power_of_ten_range_iff)
    with 2 have "\<bar>q\<bar> < 10 ^ 21" by simp
    from toFixed_finite_decimals [OF this, of 4 H] 2 show ?thesis
      unfolding eq by (simp add: toFixed_def)
  qed
next
  fix v assume "v' = Some v" and "v = NaN"
  then show "formatScoreValue H v' = ''NaN''"
    by (simp add: formatScoreValue_def power_of_ten_range_iff toFixed_def)
next
  fix v assume "v' = Some v" and "v = NegInf"
  then show "formatScoreValue H v' = ''-Infinity''"
    by (simp add: formatScoreValue_def power_of_ten_range_iff toFixed_def)
next
  fix v q assume v: "v' = Some v" and q: "v = Fin q \<and> q \<le> - (10 ^ 21)"
  have "(0 :: rat) < 10 ^ 21" by simp
  with q have "\<not> power_of_ten_range v" by (simp add: power_of_ten_range_iff)
  with v q toFixed_far_negative [of q H 4]
  show "formatScoreValue H v' = ''-'' @ host_toString H (- q)"
    by (simp add: formatScoreValue_def toFixed_def)
next
  show "formatScoreValue H (Some (Fin 0)) = ''0.0000''"
    by (simp add: formatScoreValue_def power_of_ten_range_iff toFixed_def toFixed_zero)
  show "formatScoreValue H (Some NegZero) = ''0.0000''"
    by (simp add: formatScoreValue_def power_of_ten_range_iff toFixed_def toFixed_zero)
qed

theorem formatScoreValue_branches_witness:
  "formatScoreValue ideal_host (Some (Fin (1205 / 10))) = ''120.5000''
   \<and> has_decimals 4 (formatScoreValue ideal_host (Some (Fin (1205 / 10))))
   \<and> formatScoreValue ideal_host (Some (Fin (12345 / 10)))
       = ''1.2345'' @ times_ten @ [CHR 0xC2, CHR 0xB3]
   \<and> formatScoreValue ideal_host (Some (Fin (- (10 ^ 21)))) = ''-1e+21''"
proof -
  have r1: "\<not> power_of_ten_range (Fin (1205 / 10))" by code_simp
  have t1: "toFixed ideal_host 4 (Fin (1205 / 10)) = ''120.5000''" by code_simp
  have r2: "power_of_ten_range (Fin (12345 / 10))" by code_simp
  have t2: "formatPowerOfTen ideal_host (Fin (12345 / 10)) 4
            = ''1.2345'' @ times_ten @ [CHR 0xC2, CHR 0xB3]" by code_simp
  have t3: "''-'' @ host_toString ideal_host (- (- (10 ^ 21))) = ''-1e+21''" by code_simp
  have b3: "- (10 ^ 21) \<le> (- (10 ^ 21) :: rat)" by simp
  note a = formatScoreValue_branches [of ideal_host "Some (Fin (1205 / 10))"]
  note b = formatScoreValue_branches [of ideal_host "Some (Fin (12345 / 10))"]
  note c = formatScoreValue_branches [of ideal_host "Some (Fin (- (10 ^ 21)))"]
  from a r1 t1 have 1: "formatScoreValue ideal_host (Some (Fin (1205 / 10))) = ''120.5000''"
    by simp
  have g: "- (10 ^ 21) < (1205 / 10 :: rat)" by simp
  from a r1 g have 2: "has_decimals 4 (formatScoreValue ideal_host (Some (Fin (1205 / 10))))"
    by blast
  from b r2 t2 have 3: "formatScoreValue ideal_host (Some (Fin (12345 / 10)))
       = ''1.2345'' @ times_ten @ [CHR 0xC2, CHR 0xB3]" by simp
  from c b3 have "formatScoreValue ideal_host (Some (Fin (- (10 ^ 21))))
      = ''-'' @ host_toString ideal_host (- (- (10 ^ 21)))" by blast
  with t3 have 4: "formatScoreValue ideal_host (Some (Fin (- (10 ^ 21)))) = ''-1e+21''"
    by (simp only:)
  from 1 2 3 4 show ?thesis by simp
qed

subsection \<open>The pair-matcher\<close>
















subsection \<open>The hierarchy\<close>























subsection \<open>Zero records\<close>

text \<open>
  C7. A load of zero records gives the root with the empty path, no children and no
  comparisons, and no anomaly; no step of the load can fail. Given an empty list of
  comparisons the table and the chart render their "No data available" element, and the
  panel on that root shows no section and the "No benchmarks found" line.
\<close>

theorem empty_load:
  "hierarchy (loadBenchmarkData classify []) = HierarchyNode [] [] [] []
   \<and> path (hierarchy (loadBenchmarkData classify [])) = []
   \<and> children (hierarchy (loadBenchmarkData classify [])) = []
   \<and> comparisons (hierarchy (loadBenchmarkData classify [])) = []
   \<and> anomalies (loadBenchmarkData classify []) = []
   \<and> BenchmarkTable H [] m = TableEmpty ''No data available.''
   \<and> BenchmarkChart [] m = ChartEmpty ''No data available for this selection.''
   \<and> BenchmarkView flt H (hierarchy (loadBenchmarkData classify [])) [] vm None
       = ViewNode (HierarchyNode [] [] [] []) [] True"
  by (simp add: loadBenchmarkData_def pairMatcher_def buildHierarchy_def emptyRoot_def
      BenchmarkTable_def BenchmarkChart_def BenchmarkView_def
      groupedByJmhMode_def)

end
